theory Spec2Isabelle
  imports Complex_Main "HOL-Library.Multiset"
begin

section \<open>The PINN notebook for the 1D heat equation (notebooks/activity-2.ipynb)\<close>

text \<open>
  The notebook is a sequence of cells that call NumPy, SciPy and PyTorch. The cells' own
  code is embedded function by function, under the names the notebook gives. The library
  operations the cells call are embedded by their documented behaviour, each under the
  library's name, with these conventions:
  \<^item> floating-point numbers are real numbers: rounding, overflow and underflow are not
    modelled, but for the sampling of the collocation points, whose place in a stratum
    depends on the rounding: there every operation rounds to the nearest double. The one
    place where the notebook's arithmetic leaves the finite numbers without raising, a
    tensor division by zero, is modelled by \<open>fval\<close>;
  \<^item> an exception is a value \<open>Inl e\<close> of a sum type, a returned value is \<open>Inr v\<close>;
  \<^item> pseudo-random draws are read from an explicit generator state.
\<close>

subsection \<open>Exceptions\<close>

datatype error =
    NameError string
  | IndexError
  | ValueError
  | RuntimeError
  | ZeroDivisionError

text \<open>Sequencing of two computations that may raise: the first exception wins.\<close>

definition bind :: "error + 'a \<Rightarrow> ('a \<Rightarrow> error + 'b) \<Rightarrow> error + 'b" where
  "bind m f = (case m of Inl e \<Rightarrow> Inl e | Inr v \<Rightarrow> f v)"

subsection \<open>Tensors\<close>

text \<open>
  A tensor is its shape and its elements in row-major order. A tensor of shape \<open>[]\<close>
  holds one element.
\<close>

record tensor =
  shape :: "nat list"
  data :: "real list"

definition wf_tensor :: "tensor \<Rightarrow> bool" where
  "wf_tensor t = (length (data t) = prod_list (shape t))"

text \<open>\<open>chunks k m d\<close>: the first \<open>m\<close> consecutive blocks of \<open>k\<close> elements of \<open>d\<close>.\<close>

definition chunks :: "nat \<Rightarrow> nat \<Rightarrow> 'a list \<Rightarrow> 'a list list" where
  "chunks k m d = map (\<lambda>i. take k (drop (i * k) d)) [0..<m]"

text \<open>
  Broadcasting, as PyTorch and NumPy define it: shapes are aligned at their last
  dimension; two sizes agree when they are equal or one of them is 1; a missing
  leading dimension counts as 1. \<open>broadcast_rev\<close> works on reversed shapes.
\<close>

fun broadcast_rev :: "nat list \<Rightarrow> nat list \<Rightarrow> nat list option" where
  "broadcast_rev [] bs = Some bs"
| "broadcast_rev (a # as) [] = Some (a # as)"
| "broadcast_rev (a # as) (b # bs) =
     (if a = b \<or> b = 1 then map_option ((#) a) (broadcast_rev as bs)
      else if a = 1 then map_option ((#) b) (broadcast_rev as bs)
      else None)"

definition broadcast_shapes :: "nat list \<Rightarrow> nat list \<Rightarrow> nat list option" where
  "broadcast_shapes s1 s2 = map_option rev (broadcast_rev (rev s1) (rev s2))"

text \<open>
  \<open>expand s t d\<close>: the elements of a tensor of shape \<open>s\<close> and elements \<open>d\<close>, repeated
  to the shape \<open>t\<close> that \<open>s\<close> broadcasts to.
\<close>

fun expand :: "nat list \<Rightarrow> nat list \<Rightarrow> real list \<Rightarrow> real list" where
  "expand s [] d = d"
| "expand s (n # ts) d =
     (if length s \<le> length ts then concat (replicate n (expand s ts d))
      else if hd s = n then concat (map (expand (tl s) ts) (chunks (prod_list (tl s)) n d))
      else concat (replicate n (expand (tl s) ts d)))"

text \<open>\<open>u_num - u_ref\<close> on tensors: elementwise after broadcasting; shapes that do not
  broadcast raise RuntimeError.\<close>

definition tensor_sub :: "tensor \<Rightarrow> tensor \<Rightarrow> error + tensor" where
  "tensor_sub a b =
     (case broadcast_shapes (shape a) (shape b) of
        None \<Rightarrow> Inl RuntimeError
      | Some s \<Rightarrow>
          Inr \<lparr>shape = s,
               data = map2 (-) (expand (shape a) s (data a)) (expand (shape b) s (data b))\<rparr>)"

text \<open>\<open>torch.norm(t, p=2)\<close>: the 2-norm of all elements of \<open>t\<close>, a tensor of one element,
  here its value.\<close>

definition torch_norm :: "tensor \<Rightarrow> real" where
  "torch_norm t = sqrt (\<Sum>x\<leftarrow>data t. x\<^sup>2)"

text \<open>
  The value of a floating-point division: dividing by zero does not raise on tensors, it
  gives an infinity or NaN.
\<close>

datatype fval = Finite real | PosInf | NegInf | NaN

definition fdiv :: "real \<Rightarrow> real \<Rightarrow> fval" where
  "fdiv a b =
     (if b \<noteq> 0 then Finite (a / b)
      else if a > 0 then PosInf
      else if a < 0 then NegInf
      else NaN)"

subsection \<open>relative_l2_error\<close>

text \<open>
  \<^verbatim>\<open>
  def relative_l2_error(u_num, u_ref):
      l2_diff = torch.norm(u_num - u_ref, p=2)
      l2_ref = torch.norm(u_ref, p=2)
      relative_l2 = l2_diff / l2_ref
      return relative_l2
  \<close>
\<close>

definition relative_l2_error :: "tensor \<Rightarrow> tensor \<Rightarrow> error + fval" where
  "relative_l2_error u_num u_ref =
     bind (tensor_sub u_num u_ref) (\<lambda>diff.
       let l2_diff = torch_norm diff;
           l2_ref = torch_norm u_ref;
           relative_l2 = fdiv l2_diff l2_ref
       in Inr relative_l2)"

subsection \<open>The analytical solution on a uniform mesh\<close>

text \<open>
  \<^verbatim>\<open>
  dom_samples = 100
  def analytic_diffusion(x,t):
      u = np.exp(-t)*np.sin(np.pi*x)
      return u
  x = np.linspace(-1, 1, dom_samples)
  t = np.linspace(0, 2, dom_samples)
  X, T = np.meshgrid(x, t)
  U = analytic_diffusion(X, T)
  \<close>
  The notebook's globals \<open>x\<close>, \<open>t\<close>, \<open>X\<close>, \<open>T\<close> and \<open>U\<close> are \<open>x_lin\<close>, \<open>t_lin\<close>,
  \<open>X_mesh\<close>, \<open>T_mesh\<close> and \<open>U_mesh\<close> here. A one-dimensional array is a list, a
  two-dimensional array the list of its rows.
\<close>

definition dom_samples :: nat where
  "dom_samples = 100"

definition analytic_diffusion :: "real \<Rightarrow> real \<Rightarrow> real" where
  "analytic_diffusion x t = (let u = exp (- t) * sin (pi * x) in u)"

text \<open>
  \<open>np.linspace(start, stop, num)\<close> with the default \<open>endpoint=True\<close>: the indices
  \<open>0, \<dots>, num - 1\<close> times the step \<open>(stop - start) / (num - 1)\<close>, plus \<open>start\<close>; the last
  element is then set to \<open>stop\<close>. A count is a natural number (a negative \<open>num\<close> raises
  ValueError in NumPy).
\<close>

definition linspace :: "real \<Rightarrow> real \<Rightarrow> nat \<Rightarrow> real list" where
  "linspace start stop num =
     (let div' = num - 1;
          delta = stop - start;
          y = map real [0..<num];
          y = (if div' > 0 then
                 (let step = delta / real div'
                  in if step = 0 then map (\<lambda>v. v / real div' * delta) y
                     else map (\<lambda>v. v * step) y)
               else map (\<lambda>v. v * delta) y);
          y = map (\<lambda>v. v + start) y
      in if num > 1 then y[num - 1 := stop] else y)"

text \<open>
  \<open>np.meshgrid(x, t)\<close> with the default \<open>indexing='xy'\<close>: both results have
  \<open>len(t)\<close> rows and \<open>len(x)\<close> columns; every row of the first is \<open>x\<close>, row \<open>i\<close> of the
  second repeats \<open>t[i]\<close>.
\<close>

definition meshgrid :: "'a list \<Rightarrow> 'a list \<Rightarrow> 'a list list \<times> 'a list list" where
  "meshgrid xs ts = (replicate (length ts) xs, map (\<lambda>ti. replicate (length xs) ti) ts)"

text \<open>A function of two numbers applied to two arrays of one shape, element by element,
  as NumPy's arithmetic does.\<close>

definition elementwise2 :: "('a \<Rightarrow> 'b \<Rightarrow> 'c) \<Rightarrow> 'a list list \<Rightarrow> 'b list list \<Rightarrow> 'c list list" where
  "elementwise2 f A B = map2 (map2 f) A B"

definition x_lin :: "real list" where
  "x_lin = linspace (- 1) 1 dom_samples"

definition t_lin :: "real list" where
  "t_lin = linspace 0 2 dom_samples"

definition X_mesh :: "real list list" where
  "X_mesh = fst (meshgrid x_lin t_lin)"

definition T_mesh :: "real list list" where
  "T_mesh = snd (meshgrid x_lin t_lin)"

definition U_mesh :: "real list list" where
  "U_mesh = elementwise2 analytic_diffusion X_mesh T_mesh"

subsection \<open>Double-precision arithmetic\<close>

text \<open>
  The sampler's points are compared with the boundaries of strata, so the rounding of its
  arithmetic matters and is modelled: NumPy computes in IEEE 754 binary64 with rounding to
  nearest, ties to even. A double is the real number it stands for. \<open>binade x\<close> is the
  exponent of \<open>x\<close>, at least -1022 (below, in the subnormal range, the spacing stays that
  of exponent -1022); \<open>ulp x\<close> is the spacing of the doubles around \<open>x\<close>, 52 binary places
  below its exponent; \<open>fl64 x\<close> is the double nearest to \<open>x\<close>, the result of an operation
  whose exact result is \<open>x\<close>. Overflow (beyond about \<open>1.8 * 10^308\<close>) is not modelled.
\<close>


definition binade :: "real \<Rightarrow> int" where
  "binade x = max \<lfloor>log 2 \<bar>x\<bar>\<rfloor> (- 1022)"



subsection \<open>Latin Hypercube sampling of the collocation points\<close>












subsection \<open>The random number generator of PyTorch\<close>

text \<open>
  The state of \<open>torch\<close>'s default generator after \<open>torch.manual_seed(123)\<close>: the numbers it
  will yield, uniform on \<open>[0, 1)\<close> and standard normal, and how many of each have been
  consumed. An initializer reads as many as the tensor has elements and advances the count.
\<close>

record generator =
  uniform_draw :: "nat \<Rightarrow> real"
  normal_draw :: "nat \<Rightarrow> real"
  used_uniform :: nat
  used_normal :: nat

definition draws :: "(nat \<Rightarrow> real) \<Rightarrow> nat \<Rightarrow> nat \<Rightarrow> real list" where
  "draws f pos n = map (\<lambda>k. f (pos + k)) [0..<n]"

text \<open>\<open>torch.empty(shape)\<close>: storage that is not initialized, here zeros.\<close>

definition empty :: "nat list \<Rightarrow> tensor" where
  "empty sh = \<lparr>shape = sh, data = replicate (prod_list sh) 0\<rparr>"

text \<open>\<open>tensor.uniform_(a, b)\<close> and \<open>tensor.normal_(mean, std)\<close>: every element is redrawn.\<close>

definition tensor_uniform :: "tensor \<Rightarrow> real \<Rightarrow> real \<Rightarrow> generator \<Rightarrow> tensor \<times> generator" where
  "tensor_uniform t a b g =
     (let n = prod_list (shape t)
      in (t\<lparr>data := map (\<lambda>u. a + (b - a) * u) (draws (uniform_draw g) (used_uniform g) n)\<rparr>,
          g\<lparr>used_uniform := used_uniform g + n\<rparr>))"

definition tensor_normal :: "tensor \<Rightarrow> real \<Rightarrow> real \<Rightarrow> generator \<Rightarrow> tensor \<times> generator" where
  "tensor_normal t mean std g =
     (let n = prod_list (shape t)
      in (t\<lparr>data := map (\<lambda>z. mean + std * z) (draws (normal_draw g) (used_normal g) n)\<rparr>,
          g\<lparr>used_normal := used_normal g + n\<rparr>))"

subsection \<open>Initializers of torch.nn.init\<close>

text \<open>\<open>_calculate_fan_in_and_fan_out(tensor)\<close>: ValueError below two dimensions.\<close>

definition calculate_fan_in_and_fan_out :: "tensor \<Rightarrow> error + nat \<times> nat" where
  "calculate_fan_in_and_fan_out t =
     (case shape t of
        num_output_fmaps # num_input_fmaps # rest \<Rightarrow>
          (let receptive_field_size = prod_list rest
           in Inr (num_input_fmaps * receptive_field_size,
                   num_output_fmaps * receptive_field_size))
      | _ \<Rightarrow> Inl ValueError)"

text \<open>
  \<open>kaiming_uniform_(tensor, a)\<close> with the defaults \<open>mode='fan_in'\<close> and
  \<open>nonlinearity='leaky_relu'\<close>: nothing happens to a tensor without elements; otherwise
  the gain is \<open>sqrt(2 / (1 + a\<^sup>2))\<close> and the elements are drawn uniformly between
  \<open>-bound\<close> and \<open>bound\<close>, with \<open>bound = sqrt(3) * gain / sqrt(fan_in)\<close>.
\<close>

definition kaiming_uniform :: "tensor \<Rightarrow> real \<Rightarrow> generator \<Rightarrow> error + tensor \<times> generator" where
  "kaiming_uniform t a g =
     (if 0 \<in> set (shape t) then Inr (t, g)
      else bind (calculate_fan_in_and_fan_out t) (\<lambda>(fan_in, fan_out).
        let gain = sqrt (2 / (1 + a\<^sup>2));
            std = gain / sqrt (real fan_in);
            bound = sqrt 3 * std
        in Inr (tensor_uniform t (- bound) bound g)))"

text \<open>
  \<open>xavier_normal_(tensor)\<close> with the default \<open>gain=1.0\<close>: the elements are drawn from a normal
  distribution of mean 0 and standard deviation \<open>sqrt(2 / (fan_in + fan_out))\<close>; the
  quotient is one of Python floats, so \<open>fan_in + fan_out = 0\<close> raises ZeroDivisionError.
\<close>

definition xavier_normal :: "tensor \<Rightarrow> generator \<Rightarrow> error + tensor \<times> generator" where
  "xavier_normal t g =
     bind (calculate_fan_in_and_fan_out t) (\<lambda>(fan_in, fan_out).
       if fan_in + fan_out = 0 then Inl ZeroDivisionError
       else let std = 1 * sqrt (2 / real (fan_in + fan_out))
            in Inr (tensor_normal t 0 std g))"

subsection \<open>Modules\<close>

text \<open>
  The modules the notebook builds: \<open>nn.Linear\<close> with its two parameters, \<open>nn.Tanh\<close>,
  \<open>nn.Sequential\<close> with its children in order, and the notebook's \<open>NeuralNetwork\<close>, whose
  one child is its attribute \<open>layers\<close>.
\<close>

record linear =
  in_features :: nat
  out_features :: nat
  weight :: tensor
  bias :: tensor

datatype module =
    Linear linear
  | Tanh
  | Sequential "module list"
  | NeuralNetwork module

text \<open>
  \<open>nn.Linear(in_features, out_features)\<close>: the weight has shape
  \<open>(out_features, in_features)\<close>, the bias \<open>(out_features)\<close>; a negative size raises
  RuntimeError. \<open>reset_parameters\<close> then draws the weight with
  \<open>kaiming_uniform_(weight, a=sqrt(5))\<close> and the bias uniformly between \<open>-bound\<close> and
  \<open>bound\<close>, \<open>bound = 1 / sqrt(fan_in)\<close> (0 when \<open>fan_in\<close> is 0).
\<close>

definition reset_parameters :: "linear \<Rightarrow> generator \<Rightarrow> error + linear \<times> generator" where
  "reset_parameters l g =
     bind (kaiming_uniform (weight l) (sqrt 5) g) (\<lambda>(w, g1).
       bind (calculate_fan_in_and_fan_out w) (\<lambda>(fan_in, fan_out).
         let bound = (if fan_in > 0 then 1 / sqrt (real fan_in) else 0);
             (b, g2) = tensor_uniform (bias l) (- bound) bound g1
         in Inr (l\<lparr>weight := w, bias := b\<rparr>, g2)))"

definition nn_Linear :: "int \<Rightarrow> int \<Rightarrow> generator \<Rightarrow> error + linear \<times> generator" where
  "nn_Linear in_f out_f g =
     (if in_f < 0 \<or> out_f < 0 then Inl RuntimeError
      else reset_parameters
             \<lparr>in_features = nat in_f, out_features = nat out_f,
              weight = empty [nat out_f, nat in_f], bias = empty [nat out_f]\<rparr> g)"

text \<open>
  \<open>Module.apply(fn)\<close>: \<open>fn\<close> is applied to every child, recursively and in order, and then
  to the module itself.
\<close>

fun apply_module ::
    "(module \<Rightarrow> generator \<Rightarrow> error + module \<times> generator) \<Rightarrow> module \<Rightarrow> generator
      \<Rightarrow> error + module \<times> generator"
  and apply_children ::
    "(module \<Rightarrow> generator \<Rightarrow> error + module \<times> generator) \<Rightarrow> module list \<Rightarrow> generator
      \<Rightarrow> error + module list \<times> generator"
where
  "apply_module fn (Linear l) g = fn (Linear l) g"
| "apply_module fn Tanh g = fn Tanh g"
| "apply_module fn (Sequential ms) g =
     bind (apply_children fn ms g) (\<lambda>(ms', g'). fn (Sequential ms') g')"
| "apply_module fn (NeuralNetwork layers) g =
     bind (apply_module fn layers g) (\<lambda>(layers', g'). fn (NeuralNetwork layers') g')"
| "apply_children fn [] g = Inr ([], g)"
| "apply_children fn (m # ms) g =
     bind (apply_module fn m g) (\<lambda>(m', g').
       bind (apply_children fn ms g') (\<lambda>(ms', g''). Inr (m' # ms', g'')))"

text \<open>\<open>F.linear(x, weight, bias)\<close> for a two-dimensional weight, as \<open>nn.Linear\<close> holds:
  every row of \<open>x\<close> along its last dimension is multiplied with the transposed weight,
  and the bias is added. A last dimension other than the weight's columns raises
  RuntimeError.\<close>

definition F_linear :: "tensor \<Rightarrow> tensor \<Rightarrow> tensor \<Rightarrow> error + tensor" where
  "F_linear x W b =
     (case shape W of
        [out_f, in_f] \<Rightarrow>
          if shape x = [] \<or> last (shape x) \<noteq> in_f \<or> shape b \<noteq> [out_f] then Inl RuntimeError
          else Inr \<lparr>shape = butlast (shape x) @ [out_f],
                    data = concat (map (\<lambda>row.
                       map (\<lambda>j. (\<Sum>i\<leftarrow>[0..<in_f]. row ! i * data W ! (j * in_f + i)) + data b ! j)
                           [0..<out_f])
                     (chunks in_f (prod_list (butlast (shape x))) (data x)))\<rparr>
      | _ \<Rightarrow> Inl RuntimeError)"

subsection \<open>NeuralNetwork\<close>

text \<open>
  \<^verbatim>\<open>
  class NeuralNetwork(nn.Module):
      def __init__(self, hlayers):
          super(NeuralNetwork, self).__init__()
          layers = []
          for i in range(len(hlayers[:-2])):
              layers.append(nn.Linear(hlayers[i], hlayers[i+1]))
              layers.append(nn.Tanh())
          layers.append(nn.Linear(hlayers[-2], hlayers[-1]))
          self.layers = nn.Sequential(*layers)
          self.init_params()

      def init_params(self):
          def init_normal(m):
              if isinstance(m, nn.Linear):
                  nn.init.xavier_normal_(m.weight) # Xavier
          self.apply(init_normal)

      def forward(self, x):
          return self.layers(x)
  \<close>
\<close>

text \<open>Python's \<open>xs[i]\<close>: a negative index counts from the end; out of range raises
  IndexError.\<close>

definition py_index :: "'a list \<Rightarrow> int \<Rightarrow> error + 'a" where
  "py_index xs i =
     (let n = int (length xs); j = (if i < 0 then n + i else i)
      in if 0 \<le> j \<and> j < n then Inr (xs ! nat j) else Inl IndexError)"

text \<open>Python's \<open>xs[:-2]\<close>: all but the last two elements.\<close>

definition py_slice_to_minus2 :: "'a list \<Rightarrow> 'a list" where
  "py_slice_to_minus2 xs = take (length xs - 2) xs"

definition init_normal :: "module \<Rightarrow> generator \<Rightarrow> error + module \<times> generator" where
  "init_normal m g =
     (case m of
        Linear l \<Rightarrow> bind (xavier_normal (weight l) g) (\<lambda>(w, g'). Inr (Linear (l\<lparr>weight := w\<rparr>), g'))
      | _ \<Rightarrow> Inr (m, g))"

definition init_params :: "module \<Rightarrow> generator \<Rightarrow> error + module \<times> generator" where
  "init_params self g = apply_module init_normal self g"

text \<open>The \<open>for\<close> loop of \<open>__init__\<close> over the indices \<open>is\<close>, with the list \<open>layers\<close> built so
  far.\<close>

fun init_loop ::
    "int list \<Rightarrow> nat list \<Rightarrow> module list \<Rightarrow> generator \<Rightarrow> error + module list \<times> generator" where
  "init_loop hlayers [] layers g = Inr (layers, g)"
| "init_loop hlayers (i # is) layers g =
     bind (py_index hlayers (int i)) (\<lambda>a.
       bind (py_index hlayers (int i + 1)) (\<lambda>b.
         bind (nn_Linear a b g) (\<lambda>(l, g').
           init_loop hlayers is (layers @ [Linear l] @ [Tanh]) g')))"

definition NeuralNetwork_init :: "int list \<Rightarrow> generator \<Rightarrow> error + module \<times> generator" where
  "NeuralNetwork_init hlayers g =
     bind (init_loop hlayers [0..<length (py_slice_to_minus2 hlayers)] [] g) (\<lambda>(layers, g1).
       bind (py_index hlayers (- 2)) (\<lambda>a.
         bind (py_index hlayers (- 1)) (\<lambda>b.
           bind (nn_Linear a b g1) (\<lambda>(l, g2).
             init_params (NeuralNetwork (Sequential (layers @ [Linear l]))) g2))))"

text \<open>\<open>forward\<close> of each module; \<open>NeuralNetwork.forward\<close> returns \<open>self.layers(x)\<close>, and a
  \<open>Sequential\<close> feeds the output of each child to the next.\<close>

fun forward :: "module \<Rightarrow> tensor \<Rightarrow> error + tensor"
  and forward_children :: "module list \<Rightarrow> tensor \<Rightarrow> error + tensor"
where
  "forward (Linear l) x = F_linear x (weight l) (bias l)"
| "forward Tanh x = Inr (x\<lparr>data := map tanh (data x)\<rparr>)"
| "forward (Sequential ms) x = forward_children ms x"
| "forward (NeuralNetwork layers) x = forward layers x"
| "forward_children [] x = Inr x"
| "forward_children (m # ms) x = bind (forward m x) (forward_children ms)"

definition hidden_layers :: "int list" where
  "hidden_layers = [2, 10, 10, 10, 1]"

text \<open>The \<open>nn.Linear\<close> modules of a module, in the order \<open>apply\<close> visits them.\<close>

fun linear_layers :: "module \<Rightarrow> linear list" where
  "linear_layers (Linear l) = [l]"
| "linear_layers Tanh = []"
| "linear_layers (Sequential ms) = concat (map linear_layers ms)"
| "linear_layers (NeuralNetwork layers) = linear_layers layers"

text \<open>A module with the elements of every weight matrix blanked: all of a module that is
  not the value of a weight.\<close>

fun erase_weights :: "module \<Rightarrow> module" where
  "erase_weights (Linear l) = Linear (l\<lparr>weight := (weight l)\<lparr>data := []\<rparr>\<rparr>)"
| "erase_weights Tanh = Tanh"
| "erase_weights (Sequential ms) = Sequential (map erase_weights ms)"
| "erase_weights (NeuralNetwork layers) = NeuralNetwork (erase_weights layers)"

text \<open>
  Xavier (Glorot) normal initialization of a weight with \<open>fan_in\<close> columns and \<open>fan_out\<close>
  rows from the standard normal numbers \<open>zs\<close>: each is scaled by
  \<open>sqrt(2 / (fan_in + fan_out))\<close>. The default initialization of a bias from the uniform
  numbers \<open>us\<close> on \<open>[0, 1)\<close>: each is mapped to the interval between
  \<open>-1 / sqrt(fan_in)\<close> and \<open>1 / sqrt(fan_in)\<close>.
\<close>

definition glorot_normal :: "nat \<Rightarrow> nat \<Rightarrow> real list \<Rightarrow> real list" where
  "glorot_normal fan_in fan_out zs = map (\<lambda>z. sqrt (2 / real (fan_in + fan_out)) * z) zs"

definition default_bias :: "nat \<Rightarrow> real list \<Rightarrow> real list" where
  "default_bias fan_in us =
     map (\<lambda>u. - (1 / sqrt (real fan_in)) + (1 / sqrt (real fan_in) - - (1 / sqrt (real fan_in))) * u) us"

subsection \<open>The collocation tensors\<close>





subsection \<open>torch.cat along dimension 1\<close>

text \<open>
  \<open>torch.cat([a, b], dim=1)\<close>. A tensor without dimensions raises RuntimeError. A
  one-dimensional tensor without elements is left out. Of the others the first must have
  a dimension 1 (IndexError), and all must have the number of dimensions and, but for
  dimension 1, the sizes of the first (RuntimeError). The result lines up, for every
  index of dimension 0, the blocks of the arguments.
\<close>

definition torch_cat1 :: "tensor \<Rightarrow> tensor \<Rightarrow> error + tensor" where
  "torch_cat1 a b =
     (if shape a = [] \<or> shape b = [] then Inl RuntimeError
      else case filter (\<lambda>t. shape t \<noteq> [0]) [a, b] of
          [] \<Rightarrow> Inr \<lparr>shape = [0], data = []\<rparr>
        | first # rest \<Rightarrow>
            if length (shape first) < 2 then Inl IndexError
            else if \<exists>t\<in>set rest. length (shape t) \<noteq> length (shape first)
                      \<or> hd (shape t) \<noteq> hd (shape first)
                      \<or> drop 2 (shape t) \<noteq> drop 2 (shape first)
              then Inl RuntimeError
            else Inr \<lparr>shape = hd (shape first) # (\<Sum>t\<leftarrow>first # rest. shape t ! 1)
                               # drop 2 (shape first),
                      data = concat (map (\<lambda>i. concat (map (\<lambda>t.
                                 take (prod_list (tl (shape t)))
                                      (drop (i * prod_list (tl (shape t))) (data t)))
                               (first # rest)))
                             [0..<hd (shape first)])\<rparr>)"

subsection \<open>The namespace of the notebook\<close>

text \<open>
  A name that a function reads and does not assign is looked up in the module's
  namespace when the line runs; a name that is not bound raises NameError. The names
  below are the ones the cells bind at top level up to the first call of
  \<open>PINN_diffusion_Loss\<close> (imports, functions, classes and variables, and the loop
  variable \<open>i\<close>); Python's builtins hold none of the names that function reads.
  \<open>notebook_globals obj\<close> binds every name \<open>n\<close> to its object \<open>obj n\<close>.
\<close>

definition load_global :: "(string \<rightharpoonup> 'v) \<Rightarrow> string \<Rightarrow> error + 'v" where
  "load_global ns name = (case ns name of None \<Rightarrow> Inl (NameError name) | Some v \<Rightarrow> Inr v)"

definition notebook_names :: "string list" where
  "notebook_names =
     [''np'', ''torch'', ''nn'', ''optim'', ''plt'', ''mlp'', ''time'', ''warnings'',
      ''gray'', ''relative_l2_error'', ''plot_comparison'', ''grad'',
      ''dom_samples'', ''analytic_diffusion'', ''x'', ''t'', ''X'', ''T'', ''U'',
      ''fig'', ''ax'', ''surf'',
      ''qmc'', ''sampler'', ''sample'', ''l_bounds'', ''u_bounds'', ''domain_xt'',
      ''x_ten'', ''t_ten'',
      ''hidden_layers'', ''learning_rate'', ''training_iter'',
      ''MSE_func'', ''NeuralNetwork'',
      ''u_pinn'', ''nparams'', ''optimizer'',
      ''PINN_diffusion_Loss'', ''loss_values'', ''start_time'', ''i'']"

definition notebook_globals :: "(string \<Rightarrow> 'v) \<Rightarrow> (string \<rightharpoonup> 'v)" where
  "notebook_globals obj = map_of (map (\<lambda>n. (n, obj n)) notebook_names)"

subsection \<open>PINN_diffusion_Loss\<close>

text \<open>
  \<^verbatim>\<open>
  def PINN_diffusion_Loss(forward_pass, x_ten, t_ten,
               lambda1 = 1, lambda2 = 1, lambda3 = 1):
      # ANN output, first and second derivatives
      domain = torch.cat([t_ten, x_ten], dim = 1)
      u = forward_pass(domain)
      #TODO:  Calculate the first and second derivatives
      # PDE loss definition
      #TODO: calculate the PDE loss
      # IC loss definition
      #TODO: calculate the IC loss
      # BC x = -1 definition
      #TODO: calculate the BC1 loss
      # BC x = 1 definition
      #TODO: calculate the BC2 loss
      return PDE_loss + IC_loss + BC1_loss + BC2_loss
  \<close>
  The body assigns \<open>domain\<close> and \<open>u\<close> only, so \<open>torch\<close> and the four names of the
  \<open>return\<close> are read from the namespace \<open>ns\<close>, left to right, each sum as soon as its
  operands are there. \<open>add\<close> is what \<open>+\<close> does on the objects found.
\<close>

definition PINN_diffusion_Loss ::
    "(string \<rightharpoonup> 'v) \<Rightarrow> ('v \<Rightarrow> 'v \<Rightarrow> error + 'v) \<Rightarrow> (tensor \<Rightarrow> error + tensor)
      \<Rightarrow> tensor \<Rightarrow> tensor \<Rightarrow> real \<Rightarrow> real \<Rightarrow> real \<Rightarrow> error + 'v" where
  "PINN_diffusion_Loss ns add forward_pass x_ten t_ten lambda1 lambda2 lambda3 =
     bind (load_global ns ''torch'') (\<lambda>torch.
     bind (torch_cat1 t_ten x_ten) (\<lambda>domain.
     bind (forward_pass domain) (\<lambda>u.
     bind (load_global ns ''PDE_loss'') (\<lambda>PDE_loss.
     bind (load_global ns ''IC_loss'') (\<lambda>IC_loss.
     bind (add PDE_loss IC_loss) (\<lambda>sum1.
     bind (load_global ns ''BC1_loss'') (\<lambda>BC1_loss.
     bind (add sum1 BC1_loss) (\<lambda>sum2.
     bind (load_global ns ''BC2_loss'') (\<lambda>BC2_loss.
     add sum2 BC2_loss)))))))))"

subsection \<open>The training loop\<close>

text \<open>
  \<^verbatim>\<open>
  loss_values = []
  for i in range(training_iter):
      optimizer.zero_grad()   # clear gradients for next train
      loss = PINN_diffusion_Loss(u_pinn, x_ten, t_ten)
      loss_values.append(loss.item())
      if i % 1000 == 0:  # print every 100 iterations
          print(f"Iteration {i}: Loss {loss.item()}")
      loss.backward() # compute gradients (backpropagation)
      optimizer.step() # update the ANN weigths
  \<close>
  What autograd and the Adam optimizer do is not part of the notebook: \<open>'s\<close> is the state
  they work on (the parameters of \<open>u_pinn\<close>, their gradients, the optimizer's moments) and
  \<open>torch_ops\<close> holds the operations the notebook calls on it and on the loss object \<open>'v\<close>:
  \<^item> \<open>optimizer_init\<close>: the state after \<open>optimizer = optim.Adam(u_pinn.parameters(), ...)\<close>;
  \<^item> \<open>network\<close>: the module \<open>u_pinn\<close> with the parameters of the state;
  \<^item> \<open>zero_grad\<close>: \<open>optimizer.zero_grad()\<close>;
  \<^item> \<open>item\<close>: \<open>loss.item()\<close>;
  \<^item> \<open>backward\<close>: \<open>loss.backward()\<close>;
  \<^item> \<open>step\<close>: \<open>optimizer.step()\<close>;
  \<^item> \<open>py_add\<close>: \<open>+\<close> on the objects that the names of the loss terms are bound to.
\<close>

record ('s, 'v) torch_ops =
  optimizer_init :: "module \<Rightarrow> 's"
  network :: "'s \<Rightarrow> module"
  zero_grad :: "'s \<Rightarrow> 's"
  item :: "'v \<Rightarrow> error + real"
  backward :: "'v \<Rightarrow> 's \<Rightarrow> error + 's"
  step :: "'s \<Rightarrow> error + 's"
  py_add :: "'v \<Rightarrow> 'v \<Rightarrow> error + 'v"

record 's train_state =
  model :: 's
  loss_values :: "real list"
  printed :: "(nat \<times> real) list"

definition training_iter :: nat where
  "training_iter = 20000"

text \<open>
  A \<open>for\<close> loop over the indices \<open>is\<close>: an iteration that raises ends the loop with its
  exception and with the state it had reached; \<open>None\<close> says that the loop ran to its end.
\<close>

fun for_loop :: "(nat \<Rightarrow> 'st \<Rightarrow> error option \<times> 'st) \<Rightarrow> nat list \<Rightarrow> 'st \<Rightarrow> error option \<times> 'st" where
  "for_loop body [] s = (None, s)"
| "for_loop body (i # is) s =
     (case body i s of
        (Some e, s') \<Rightarrow> (Some e, s')
      | (None, s') \<Rightarrow> for_loop body is s')"

definition training_step ::
    "('s, 'v) torch_ops \<Rightarrow> (string \<rightharpoonup> 'v) \<Rightarrow> tensor \<Rightarrow> tensor \<Rightarrow> nat \<Rightarrow> 's train_state
      \<Rightarrow> error option \<times> 's train_state" where
  "training_step ops ns x_ten t_ten i s =
     (let s1 = s\<lparr>model := zero_grad ops (model s)\<rparr>
      in case PINN_diffusion_Loss ns (py_add ops) (forward (network ops (model s1))) x_ten t_ten 1 1 1 of
           Inl e \<Rightarrow> (Some e, s1)
         | Inr loss \<Rightarrow>
             (case item ops loss of
                Inl e \<Rightarrow> (Some e, s1)
              | Inr v \<Rightarrow>
                  let s2 = s1\<lparr>loss_values := loss_values s1 @ [v]\<rparr>;
                      s3 = (if i mod 1000 = 0 then s2\<lparr>printed := printed s2 @ [(i, v)]\<rparr> else s2)
                  in case backward ops loss (model s3) of
                       Inl e \<Rightarrow> (Some e, s3)
                     | Inr m \<Rightarrow>
                         (case step ops m of
                            Inl e \<Rightarrow> (Some e, s3\<lparr>model := m\<rparr>)
                          | Inr m' \<Rightarrow> (None, s3\<lparr>model := m'\<rparr>))))"

definition training_loop ::
    "('s, 'v) torch_ops \<Rightarrow> (string \<rightharpoonup> 'v) \<Rightarrow> tensor \<Rightarrow> tensor \<Rightarrow> 's
      \<Rightarrow> error option \<times> 's train_state" where
  "training_loop ops ns x_ten t_ten m =
     for_loop (training_step ops ns x_ten t_ten) [0..<training_iter]
       \<lparr>model = m, loss_values = [], printed = []\<rparr>"

subsection \<open>The evaluation after training\<close>

text \<open>
  \<^verbatim>\<open>
  X_ten = torch.tensor(X).float().reshape(-1, 1)
  T_ten = torch.tensor(T).float().reshape(-1, 1)
  domain_ten = torch.cat([T_ten, X_ten], dim = 1)
  U_pred = u_pinn(domain_ten).reshape(dom_samples,dom_samples)
  U_true = torch.tensor(U).float()
  print(f'Relative error: {relative_l2_error(U_pred, U_true)}')
  \<close>
\<close>





subsection \<open>The notebook, cell after cell\<close>


section \<open>Properties\<close>

subsection \<open>Tensors and relative_l2_error\<close>

lemma concat_chunks_take: "concat (chunks k m d) = take (m * k) d"
proof (induction m)
  case 0 then show ?case by (simp add: chunks_def)
next
  case (Suc m)
  have "concat (chunks k (Suc m) d) = concat (chunks k m d) @ take k (drop (m * k) d)"
    by (simp add: chunks_def)
  also have "\<dots> = take (m * k) d @ take k (drop (m * k) d)" using Suc by simp
  also have "\<dots> = take (m * k + k) d" by (simp only: take_add)
  also have "m * k + k = Suc m * k" by simp
  finally show ?case .
qed

lemma concat_chunks: "length d = m * k \<Longrightarrow> concat (chunks k m d) = d"
  by (simp add: concat_chunks_take)

lemma length_chunk: "length d = m * k \<Longrightarrow> c \<in> set (chunks k m d) \<Longrightarrow> length c = k"
proof -
  assume len: "length d = m * k" and "c \<in> set (chunks k m d)"
  then obtain i where i: "i < m" and c: "c = take k (drop (i * k) d)"
    by (auto simp: chunks_def)
  from i have "Suc i * k \<le> m * k" by (intro mult_le_mono1) simp
  then have "k \<le> length d - i * k" using len by simp
  then show ?thesis using c by simp
qed

lemma broadcast_rev_same: "broadcast_rev s s = Some s"
  by (induction s) auto

lemma broadcast_shapes_same: "broadcast_shapes s s = Some s"
  by (simp add: broadcast_shapes_def broadcast_rev_same)

lemma expand_same: "length d = prod_list s \<Longrightarrow> expand s s d = d"
proof (induction s arbitrary: d)
  case Nil then show ?case by simp
next
  case (Cons n s)
  have len: "length d = n * prod_list s" using Cons.prems by simp
  have "map (expand s s) (chunks (prod_list s) n d) = chunks (prod_list s) n d"
    by (rule map_idI) (auto intro!: Cons.IH dest: length_chunk[OF len])
  then show ?case using len by (simp add: concat_chunks)
qed

lemma sum_list_squares_nonneg: "0 \<le> (\<Sum>x\<leftarrow>xs. (x::real)\<^sup>2)"
  by (induction xs) auto

lemma sum_list_squares_eq_0: "(\<Sum>x\<leftarrow>xs. x\<^sup>2) = 0 \<longleftrightarrow> (\<forall>x\<in>set xs. x = (0::real))"
proof (induction xs)
  case Nil then show ?case by simp
next
  case (Cons a xs)
  have "a\<^sup>2 + (\<Sum>x\<leftarrow>xs. x\<^sup>2) = 0 \<longleftrightarrow> a\<^sup>2 = 0 \<and> (\<Sum>x\<leftarrow>xs. x\<^sup>2) = 0"
    by (rule add_nonneg_eq_0_iff) (simp_all add: sum_list_squares_nonneg)
  then show ?case using Cons by simp
qed

lemma torch_norm_eq_0: "torch_norm t = 0 \<longleftrightarrow> (\<forall>x\<in>set (data t). x = 0)"
  by (simp add: torch_norm_def sum_list_squares_eq_0)

lemma torch_norm_nonneg: "0 \<le> torch_norm t"
  by (simp add: torch_norm_def sum_list_squares_nonneg)

lemma tensor_sub_same_shape:
  "shape a = shape b \<Longrightarrow> wf_tensor a \<Longrightarrow> wf_tensor b \<Longrightarrow>
   tensor_sub a b = Inr \<lparr>shape = shape b, data = map2 (-) (data a) (data b)\<rparr>"
  by (simp add: tensor_sub_def broadcast_shapes_same expand_same wf_tensor_def)

lemma relative_l2_error_unfold:
  "relative_l2_error u_num u_ref =
     (case tensor_sub u_num u_ref of
        Inl e \<Rightarrow> Inl e
      | Inr diff \<Rightarrow> Inr (fdiv (torch_norm diff) (torch_norm u_ref)))"
  by (simp add: relative_l2_error_def bind_def Let_def)

text \<open>
  Claim C5. \<open>relative_l2_error(u_num, u_ref)\<close> is the Euclidean norm of the difference
  \<open>u_num - u_ref\<close> divided by the Euclidean norm of \<open>u_ref\<close>: whenever the tensor
  difference exists, the result is the quotient of the two square roots of sums of
  squares; where the shapes do not broadcast, the exception of the subtraction is the
  outcome, and where they do the function returns. For two tensors of one shape the difference is elementwise, the function
  returns, and with a reference that is not all zero the quotient is a finite number.
\<close>

theorem relative_l2_error_is_norm_ratio:
  "(\<forall>diff. tensor_sub u_num u_ref = Inr diff \<longrightarrow>
      relative_l2_error u_num u_ref =
        Inr (fdiv (sqrt (\<Sum>x\<leftarrow>data diff. x\<^sup>2)) (sqrt (\<Sum>y\<leftarrow>data u_ref. y\<^sup>2)))) \<and>
   (\<forall>e. tensor_sub u_num u_ref = Inl e \<longrightarrow> relative_l2_error u_num u_ref = Inl e) \<and>
   (\<forall>s. broadcast_shapes (shape u_num) (shape u_ref) = Some s \<longrightarrow>
      (\<exists>v. relative_l2_error u_num u_ref = Inr v)) \<and>
   (broadcast_shapes (shape u_num) (shape u_ref) = None \<longrightarrow>
      relative_l2_error u_num u_ref = Inl RuntimeError) \<and>
   (shape u_num = shape u_ref \<and> wf_tensor u_num \<and> wf_tensor u_ref \<longrightarrow>
      relative_l2_error u_num u_ref =
        Inr (fdiv (sqrt (\<Sum>(a, b)\<leftarrow>zip (data u_num) (data u_ref). (a - b)\<^sup>2))
                  (sqrt (\<Sum>b\<leftarrow>data u_ref. b\<^sup>2)))) \<and>
   (shape u_num = shape u_ref \<and> wf_tensor u_num \<and> wf_tensor u_ref \<and>
    (\<exists>b\<in>set (data u_ref). b \<noteq> 0) \<longrightarrow>
      relative_l2_error u_num u_ref =
        Inr (Finite (sqrt (\<Sum>(a, b)\<leftarrow>zip (data u_num) (data u_ref). (a - b)\<^sup>2) /
                     sqrt (\<Sum>b\<leftarrow>data u_ref. b\<^sup>2))))"
proof (intro conjI allI impI)
  fix diff assume "tensor_sub u_num u_ref = Inr diff"
  then show "relative_l2_error u_num u_ref =
        Inr (fdiv (sqrt (\<Sum>x\<leftarrow>data diff. x\<^sup>2)) (sqrt (\<Sum>y\<leftarrow>data u_ref. y\<^sup>2)))"
    by (simp add: relative_l2_error_unfold torch_norm_def)
next
  fix e assume "tensor_sub u_num u_ref = Inl e"
  then show "relative_l2_error u_num u_ref = Inl e"
    by (simp add: relative_l2_error_unfold)
next
  fix s assume "broadcast_shapes (shape u_num) (shape u_ref) = Some s"
  then show "\<exists>v. relative_l2_error u_num u_ref = Inr v"
    by (simp add: relative_l2_error_unfold tensor_sub_def)
next
  assume "broadcast_shapes (shape u_num) (shape u_ref) = None"
  then show "relative_l2_error u_num u_ref = Inl RuntimeError"
    by (simp add: relative_l2_error_unfold tensor_sub_def)
next
  assume a: "shape u_num = shape u_ref \<and> wf_tensor u_num \<and> wf_tensor u_ref"
  have m: "(\<Sum>x\<leftarrow>map2 (-) (data u_num) (data u_ref). x\<^sup>2)
      = (\<Sum>(a, b)\<leftarrow>zip (data u_num) (data u_ref). (a - b)\<^sup>2)"
    by (simp add: comp_def case_prod_unfold)
  show "relative_l2_error u_num u_ref =
        Inr (fdiv (sqrt (\<Sum>(a, b)\<leftarrow>zip (data u_num) (data u_ref). (a - b)\<^sup>2))
                  (sqrt (\<Sum>b\<leftarrow>data u_ref. b\<^sup>2)))"
    using a m by (simp add: relative_l2_error_unfold tensor_sub_same_shape torch_norm_def)
next
  assume a: "shape u_num = shape u_ref \<and> wf_tensor u_num \<and> wf_tensor u_ref \<and>
    (\<exists>b\<in>set (data u_ref). b \<noteq> 0)"
  have m: "(\<Sum>x\<leftarrow>map2 (-) (data u_num) (data u_ref). x\<^sup>2)
      = (\<Sum>(a, b)\<leftarrow>zip (data u_num) (data u_ref). (a - b)\<^sup>2)"
    by (simp add: comp_def case_prod_unfold)
  have nz: "sqrt (\<Sum>b\<leftarrow>data u_ref. b\<^sup>2) \<noteq> 0"
    using a by (simp add: sum_list_squares_eq_0)
  show "relative_l2_error u_num u_ref =
        Inr (Finite (sqrt (\<Sum>(a, b)\<leftarrow>zip (data u_num) (data u_ref). (a - b)\<^sup>2) /
                     sqrt (\<Sum>b\<leftarrow>data u_ref. b\<^sup>2)))"
    using a m nz by (simp add: relative_l2_error_unfold tensor_sub_same_shape torch_norm_def fdiv_def)
qed

theorem relative_l2_error_is_norm_ratio_witness:
  "relative_l2_error \<lparr>shape = [2], data = [4, 6]\<rparr> \<lparr>shape = [2], data = [4, 3]\<rparr>
     = Inr (Finite (sqrt 9 / sqrt 25))"
  using relative_l2_error_is_norm_ratio
    [of "\<lparr>shape = [2], data = [4, 6]\<rparr>" "\<lparr>shape = [2], data = [4, 3]\<rparr>"]
  by (simp add: wf_tensor_def fdiv_def)

text \<open>
  Claim C9. The division by the norm of \<open>u_ref\<close> is unguarded: when every element of
  \<open>u_ref\<close> is zero the divisor is 0 and no call returns a finite number. Where the
  subtraction succeeds the function does return, NaN when the difference is all zero
  and positive infinity otherwise; no check raises for this input.
\<close>

theorem relative_l2_error_zero_reference:
  assumes "\<forall>y\<in>set (data u_ref). y = 0"
  shows "torch_norm u_ref = 0 \<and>
    (\<forall>r. relative_l2_error u_num u_ref \<noteq> Inr (Finite r)) \<and>
    (\<forall>diff. tensor_sub u_num u_ref = Inr diff \<longrightarrow>
       relative_l2_error u_num u_ref = Inr (if torch_norm diff = 0 then NaN else PosInf)) \<and>
    (shape u_num = shape u_ref \<and> wf_tensor u_num \<and> wf_tensor u_ref \<longrightarrow>
       relative_l2_error u_num u_ref =
         Inr (if \<forall>a\<in>set (data u_num). a = 0 then NaN else PosInf))"
proof -
  have z: "torch_norm u_ref = 0" using assms by (simp add: torch_norm_eq_0)
  have d: "relative_l2_error u_num u_ref = Inr (if torch_norm diff = 0 then NaN else PosInf)"
    if "tensor_sub u_num u_ref = Inr diff" for diff
    using that z torch_norm_nonneg[of diff]
    by (auto simp: relative_l2_error_unfold fdiv_def)
  have nf: "relative_l2_error u_num u_ref \<noteq> Inr (Finite r)" for r
    using d by (cases "tensor_sub u_num u_ref") (auto simp: relative_l2_error_unfold)
  have s: "relative_l2_error u_num u_ref =
         Inr (if \<forall>a\<in>set (data u_num). a = 0 then NaN else PosInf)"
    if a: "shape u_num = shape u_ref \<and> wf_tensor u_num \<and> wf_tensor u_ref"
  proof -
    have len: "length (data u_num) = length (data u_ref)" using a by (simp add: wf_tensor_def)
    have "map2 (-) (data u_num) (data u_ref) = data u_num"
      using len assms by (intro nth_equalityI) auto
    then have "torch_norm \<lparr>shape = shape u_ref, data = map2 (-) (data u_num) (data u_ref)\<rparr> = 0
       \<longleftrightarrow> (\<forall>a\<in>set (data u_num). a = 0)"
      by (simp add: torch_norm_eq_0)
    then show ?thesis using a d[OF tensor_sub_same_shape] by simp
  qed
  show ?thesis using z d nf s by blast
qed

theorem relative_l2_error_zero_reference_witness:
  "set (data \<lparr>shape = [2], data = [0, 0]\<rparr>) \<subseteq> {0} \<and>
   torch_norm \<lparr>shape = [2], data = [0, 0]\<rparr> = 0 \<and>
   relative_l2_error \<lparr>shape = [2], data = [1, 2]\<rparr> \<lparr>shape = [2], data = [0, 0]\<rparr> = Inr PosInf"
  using relative_l2_error_zero_reference
    [of "\<lparr>shape = [2], data = [0, 0]\<rparr>" "\<lparr>shape = [2], data = [1, 2]\<rparr>"]
  by (simp add: wf_tensor_def)

subsection \<open>The uniform mesh\<close>

lemma length_linspace: "length (linspace start stop num) = num"
  by (simp add: linspace_def Let_def)

lemma linspace_nth:
  assumes "i < num"
  shows "linspace start stop num ! i = start + real i * ((stop - start) / real (num - 1))"
proof (cases "num > 1")
  case False
  then have "num = 1" "i = 0" using assms by auto
  then show ?thesis by (simp add: linspace_def)
next
  case True
  show ?thesis
  proof (cases "i = num - 1")
    case True
    with \<open>num > 1\<close> show ?thesis by (simp add: linspace_def Let_def)
  next
    case False
    with \<open>num > 1\<close> assms show ?thesis by (auto simp: linspace_def Let_def)
  qed
qed

lemma meshgrid_fst_nth: "i < length ts \<Longrightarrow> fst (meshgrid xs ts) ! i = xs"
  by (simp add: meshgrid_def)

lemma meshgrid_snd_nth: "i < length ts \<Longrightarrow> snd (meshgrid xs ts) ! i = replicate (length xs) (ts ! i)"
  by (simp add: meshgrid_def)

lemma U_mesh_nth:
  assumes "i < length t_lin" "j < length x_lin"
  shows "U_mesh ! i ! j = analytic_diffusion (x_lin ! j) (t_lin ! i)"
  using assms
  by (simp add: U_mesh_def X_mesh_def T_mesh_def elementwise2_def meshgrid_def)

text \<open>
  Claim C2. \<open>analytic_diffusion(x, t)\<close> is \<open>e\<^sup>-\<^sup>t sin(\<pi> x)\<close> for all real \<open>x\<close> and \<open>t\<close>. The
  100 spatial points run from -1 to 1 and the 100 temporal points from 0 to 2, each
  with the constant spacing 2/99, and entry \<open>U[i][j]\<close> of the 100 by 100 mesh is
  \<open>analytic_diffusion\<close> at the \<open>j\<close>-th spatial and the \<open>i\<close>-th temporal point.
\<close>

theorem analytic_diffusion_on_uniform_mesh:
  "(\<forall>x t. analytic_diffusion x t = exp (- t) * sin (pi * x)) \<and>
   length x_lin = 100 \<and> length t_lin = 100 \<and>
   (\<forall>j<100. x_lin ! j = - 1 + real j * (2 / 99)) \<and>
   (\<forall>i<100. t_lin ! i = real i * (2 / 99)) \<and>
   x_lin ! 0 = - 1 \<and> x_lin ! 99 = 1 \<and> t_lin ! 0 = 0 \<and> t_lin ! 99 = 2 \<and>
   (\<forall>j<99. x_lin ! Suc j - x_lin ! j = 2 / 99) \<and>
   (\<forall>i<99. t_lin ! Suc i - t_lin ! i = 2 / 99) \<and>
   length U_mesh = 100 \<and> (\<forall>i<100. length (U_mesh ! i) = 100) \<and>
   (\<forall>i<100. \<forall>j<100. U_mesh ! i ! j = analytic_diffusion (x_lin ! j) (t_lin ! i))"
proof -
  have lx: "length x_lin = 100" and lt: "length t_lin = 100"
    by (simp_all add: x_lin_def t_lin_def dom_samples_def length_linspace)
  have xn: "x_lin ! j = - 1 + real j * (2 / 99)" if "j < 100" for j
    using that by (simp add: x_lin_def dom_samples_def linspace_nth)
  have tn: "t_lin ! i = real i * (2 / 99)" if "i < 100" for i
    using that by (simp add: t_lin_def dom_samples_def linspace_nth)
  have xs: "x_lin ! Suc j - x_lin ! j = 2 / 99" if "j < 99" for j
    using that by (simp add: xn algebra_simps)
  have ts: "t_lin ! Suc i - t_lin ! i = 2 / 99" if "i < 99" for i
    using that by (simp add: tn algebra_simps)
  have lu: "length U_mesh = 100"
    by (simp add: U_mesh_def X_mesh_def T_mesh_def elementwise2_def meshgrid_def lt)
  have lr: "length (U_mesh ! i) = 100" if "i < 100" for i
    using that
    by (simp add: U_mesh_def X_mesh_def T_mesh_def elementwise2_def meshgrid_def lt lx)
  have un: "U_mesh ! i ! j = analytic_diffusion (x_lin ! j) (t_lin ! i)"
    if "i < 100" "j < 100" for i j
    using that by (simp add: U_mesh_nth lx lt)
  have e: "x_lin ! 0 = - 1" "x_lin ! 99 = 1" "t_lin ! 0 = 0" "t_lin ! 99 = 2"
    by (simp_all add: xn tn)
  have a: "analytic_diffusion x t = exp (- t) * sin (pi * x)" for x t
    by (simp add: analytic_diffusion_def)
  show ?thesis
    using lx lt xn tn xs ts lu lr un e a by blast
qed

theorem analytic_diffusion_on_uniform_mesh_witness:
  "x_lin ! 5 = - 1 + 5 * (2 / 99) \<and> t_lin ! 3 = 3 * (2 / 99) \<and>
   U_mesh ! 3 ! 5 = exp (- (3 * (2 / 99))) * sin (pi * (- 1 + 5 * (2 / 99)))"
proof -
  note m = analytic_diffusion_on_uniform_mesh
  from m have x: "\<forall>j<100. x_lin ! j = - 1 + real j * (2 / 99)" by blast
  from m have t: "\<forall>i<100. t_lin ! i = real i * (2 / 99)" by blast
  from m have u: "\<forall>i<100. \<forall>j<100. U_mesh ! i ! j = analytic_diffusion (x_lin ! j) (t_lin ! i)"
    by blast
  from m have a: "\<forall>x t. analytic_diffusion x t = exp (- t) * sin (pi * x)" by blast
  have x5: "x_lin ! 5 = - 1 + 5 * (2 / 99)" using x[rule_format, of 5] by simp
  have t3: "t_lin ! 3 = 3 * (2 / 99)" using t[rule_format, of 3] by simp
  have "U_mesh ! 3 ! 5 = analytic_diffusion (x_lin ! 5) (t_lin ! 3)"
    using u[rule_format, of 3 5] by simp
  then have "U_mesh ! 3 ! 5 = exp (- (3 * (2 / 99))) * sin (pi * (- 1 + 5 * (2 / 99)))"
    unfolding x5 t3 a[rule_format] .
  with x5 t3 show ?thesis by blast
qed
subsection \<open>Rounding to the nearest double\<close>







lemma binade_minus: "binade (- x) = binade x"
  by (simp add: binade_def)





















subsection \<open>Latin Hypercube sampling of the collocation points\<close>





















subsection \<open>The network and its initialization\<close>

lemmas net_defs = NeuralNetwork_init_def py_slice_to_minus2_def py_index_def bind_def nn_Linear_def reset_parameters_def
    kaiming_uniform_def calculate_fan_in_and_fan_out_def empty_def tensor_uniform_def Let_def init_params_def init_normal_def xavier_normal_def tensor_normal_def

lemma NeuralNetwork_init_hidden_layers:
  "NeuralNetwork_init hidden_layers g =
     Inr (NeuralNetwork (Sequential
       [Linear \<lparr>in_features = 2, out_features = 10,
                weight = \<lparr>shape = [10, 2],
                          data = glorot_normal 2 10 (draws (normal_draw g) (used_normal g) 20)\<rparr>,
                bias = \<lparr>shape = [10],
                        data = default_bias 2 (draws (uniform_draw g) (used_uniform g + 20) 10)\<rparr>\<rparr>,
        Tanh,
        Linear \<lparr>in_features = 10, out_features = 10,
                weight = \<lparr>shape = [10, 10],
                          data = glorot_normal 10 10 (draws (normal_draw g) (used_normal g + 20) 100)\<rparr>,
                bias = \<lparr>shape = [10],
                        data = default_bias 10 (draws (uniform_draw g) (used_uniform g + 130) 10)\<rparr>\<rparr>,
        Tanh,
        Linear \<lparr>in_features = 10, out_features = 10,
                weight = \<lparr>shape = [10, 10],
                          data = glorot_normal 10 10 (draws (normal_draw g) (used_normal g + 120) 100)\<rparr>,
                bias = \<lparr>shape = [10],
                        data = default_bias 10 (draws (uniform_draw g) (used_uniform g + 240) 10)\<rparr>\<rparr>,
        Tanh,
        Linear \<lparr>in_features = 10, out_features = 1,
                weight = \<lparr>shape = [1, 10],
                          data = glorot_normal 10 1 (draws (normal_draw g) (used_normal g + 220) 10)\<rparr>,
                bias = \<lparr>shape = [1],
                        data = default_bias 10 (draws (uniform_draw g) (used_uniform g + 260) 1)\<rparr>\<rparr>]),
      g\<lparr>used_uniform := used_uniform g + 261, used_normal := used_normal g + 230\<rparr>)"
  by (simp add: hidden_layers_def net_defs glorot_normal_def default_bias_def upt_conv_Cons add.commute)

lemma length_concat_rows:
  assumes "\<And>r. r \<in> set rs \<Longrightarrow> length (f r) = k"
  shows "length (concat (map f rs)) = length rs * k"
  using assms by (induction rs) auto

lemma F_linear_shape:
  assumes W: "shape W = [out_f, in_f]" and b: "shape b = [out_f]" and x: "shape x = [n, in_f]"
  shows "\<exists>y. F_linear x W b = Inr y \<and> shape y = [n, out_f] \<and> wf_tensor y"
proof -
  let ?rows = "chunks in_f (prod_list (butlast (shape x))) (data x)"
  let ?f = "\<lambda>row. map (\<lambda>j. (\<Sum>i\<leftarrow>[0..<in_f]. row ! i * data W ! (j * in_f + i)) + data b ! j)
                           [0..<out_f]"
  let ?y = "\<lparr>shape = butlast (shape x) @ [out_f], data = concat (map ?f ?rows)\<rparr>"
  have "F_linear x W b = Inr ?y" by (simp add: F_linear_def W b x)
  moreover have "shape ?y = [n, out_f]" by (simp add: x)
  moreover have "length (concat (map ?f ?rows)) = length ?rows * out_f"
    by (rule length_concat_rows) simp
  then have "wf_tensor ?y" by (simp add: wf_tensor_def x chunks_def)
  ultimately show ?thesis by blast
qed

lemma forward_Linear_shape:
  assumes "shape (weight l) = [out_f, in_f]" "shape (bias l) = [out_f]" "shape x = [n, in_f]"
  shows "\<exists>y. forward (Linear l) x = Inr y \<and> shape y = [n, out_f] \<and> wf_tensor y"
  using F_linear_shape[OF assms] by simp

lemma forward_Tanh_shape:
  assumes "shape x = s" "wf_tensor x"
  shows "\<exists>y. forward Tanh x = Inr y \<and> shape y = s \<and> wf_tensor y"
  using assms by (simp add: wf_tensor_def)

lemma F_linear_bad_shape:
  assumes "shape W = [out_f, in_f]" "shape x = [n, k]" "k \<noteq> in_f"
  shows "F_linear x W b = Inl RuntimeError"
  using assms by (simp add: F_linear_def)

lemma forward_four_layers:
  assumes s1: "shape (weight l1) = [h1, d_in]" "shape (bias l1) = [h1]"
    and s2: "shape (weight l2) = [h2, h1]" "shape (bias l2) = [h2]"
    and s3: "shape (weight l3) = [h3, h2]" "shape (bias l3) = [h3]"
    and s4: "shape (weight l4) = [d_out, h3]" "shape (bias l4) = [d_out]"
    and x: "shape x = [n, d_in]"
  shows "\<exists>y. forward (NeuralNetwork (Sequential
            [Linear l1, Tanh, Linear l2, Tanh, Linear l3, Tanh, Linear l4])) x = Inr y
          \<and> shape y = [n, d_out] \<and> wf_tensor y"
proof -
  obtain y1 where y1: "forward (Linear l1) x = Inr y1" "shape y1 = [n, h1]" "wf_tensor y1"
    using forward_Linear_shape[OF s1 x] by blast
  obtain z1 where z1: "forward Tanh y1 = Inr z1" "shape z1 = [n, h1]" "wf_tensor z1"
    using forward_Tanh_shape[OF y1(2,3)] by blast
  obtain y2 where y2: "forward (Linear l2) z1 = Inr y2" "shape y2 = [n, h2]" "wf_tensor y2"
    using forward_Linear_shape[OF s2 z1(2)] by blast
  obtain z2 where z2: "forward Tanh y2 = Inr z2" "shape z2 = [n, h2]" "wf_tensor z2"
    using forward_Tanh_shape[OF y2(2,3)] by blast
  obtain y3 where y3: "forward (Linear l3) z2 = Inr y3" "shape y3 = [n, h3]" "wf_tensor y3"
    using forward_Linear_shape[OF s3 z2(2)] by blast
  obtain z3 where z3: "forward Tanh y3 = Inr z3" "shape z3 = [n, h3]" "wf_tensor z3"
    using forward_Tanh_shape[OF y3(2,3)] by blast
  obtain y4 where y4: "forward (Linear l4) z3 = Inr y4" "shape y4 = [n, d_out]" "wf_tensor y4"
    using forward_Linear_shape[OF s4 z3(2)] by blast
  have "forward (NeuralNetwork (Sequential
            [Linear l1, Tanh, Linear l2, Tanh, Linear l3, Tanh, Linear l4])) x = Inr y4"
    using y1(1) z1(1) y2(1) z2(1) y3(1) z3(1) y4(1)
    by (simp add: bind_def del: forward.simps(1,2))
  then show ?thesis using y4 by blast
qed

lemma xavier_normal_frame:
  assumes "xavier_normal w g = Inr (w', g')"
  shows "w'\<lparr>data := []\<rparr> = w\<lparr>data := []\<rparr> \<and> shape w' = shape w
    \<and> uniform_draw g' = uniform_draw g \<and> used_uniform g' = used_uniform g
    \<and> normal_draw g' = normal_draw g"
  using assms
  by (auto simp: xavier_normal_def bind_def tensor_normal_def Let_def
           split: sum.splits if_splits prod.splits)

lemma init_normal_frame:
  assumes "init_normal m g = Inr (m', g')"
  shows "erase_weights m' = erase_weights m
    \<and> map bias (linear_layers m') = map bias (linear_layers m)
    \<and> map in_features (linear_layers m') = map in_features (linear_layers m)
    \<and> map out_features (linear_layers m') = map out_features (linear_layers m)
    \<and> uniform_draw g' = uniform_draw g \<and> used_uniform g' = used_uniform g
    \<and> normal_draw g' = normal_draw g"
proof (cases m)
  case (Linear l)
  from assms obtain w where w: "xavier_normal (weight l) g = Inr (w, g')"
    and m': "m' = Linear (l\<lparr>weight := w\<rparr>)"
    by (auto simp: init_normal_def bind_def Linear split: sum.splits)
  show ?thesis using xavier_normal_frame[OF w] by (simp add: m' Linear)
qed (use assms in \<open>auto simp: init_normal_def\<close>)

lemma apply_init_normal_frame_aux:
  "fn = init_normal \<Longrightarrow> apply_module fn m g = Inr (m', g') \<Longrightarrow>
     erase_weights m' = erase_weights m
     \<and> map bias (linear_layers m') = map bias (linear_layers m)
     \<and> map in_features (linear_layers m') = map in_features (linear_layers m)
     \<and> map out_features (linear_layers m') = map out_features (linear_layers m)
     \<and> uniform_draw g' = uniform_draw g \<and> used_uniform g' = used_uniform g
     \<and> normal_draw g' = normal_draw g"
  "fn = init_normal \<Longrightarrow> apply_children fn ms g = Inr (ms', g'') \<Longrightarrow>
     map erase_weights ms' = map erase_weights ms
     \<and> map bias (concat (map linear_layers ms')) = map bias (concat (map linear_layers ms))
     \<and> map in_features (concat (map linear_layers ms'))
         = map in_features (concat (map linear_layers ms))
     \<and> map out_features (concat (map linear_layers ms'))
         = map out_features (concat (map linear_layers ms))
     \<and> uniform_draw g'' = uniform_draw g \<and> used_uniform g'' = used_uniform g
     \<and> normal_draw g'' = normal_draw g"
proof (induction fn m g and fn ms g arbitrary: m' g' and ms' g''
       rule: apply_module_apply_children.induct)
  case (1 fn l g)
  then show ?case using init_normal_frame by simp
next
  case (2 fn g)
  then show ?case using init_normal_frame by simp
next
  case (3 fn ms g)
  note fn = \<open>fn = init_normal\<close>
  from "3.prems" obtain ms1 g1 where a: "apply_children init_normal ms g = Inr (ms1, g1)"
    and b: "init_normal (Sequential ms1) g1 = Inr (m', g')"
    by (auto simp: bind_def split: sum.splits)
  from b have m': "m' = Sequential ms1" "g' = g1" by (auto simp: init_normal_def)
  show ?case using "3.IH"[OF fn a[folded fn]] by (simp add: m')
next
  case (4 fn layers g)
  note fn = \<open>fn = init_normal\<close>
  from "4.prems" obtain l1 g1 where a: "apply_module init_normal layers g = Inr (l1, g1)"
    and b: "init_normal (NeuralNetwork l1) g1 = Inr (m', g')"
    by (auto simp: bind_def split: sum.splits)
  from b have m': "m' = NeuralNetwork l1" "g' = g1" by (auto simp: init_normal_def)
  show ?case using "4.IH"[OF fn a[folded fn]] by (simp add: m')
next
  case (5 fn g)
  then show ?case by simp
next
  case (6 fn m ms g)
  note fn = \<open>fn = init_normal\<close>
  from "6.prems" obtain m1 g1 ms1 where a: "apply_module init_normal m g = Inr (m1, g1)"
    and b: "apply_children init_normal ms g1 = Inr (ms1, g'')"
    and c: "ms' = m1 # ms1"
    by (auto simp: bind_def split: sum.splits)
  show ?case
    using "6.IH"(1)[OF fn a[folded fn]] "6.IH"(2)[OF fn b[folded fn]]
    by (simp add: c)
qed

lemma init_params_frame_aux:
  assumes "init_params m g = Inr (m', g')"
  shows "erase_weights m' = erase_weights m
     \<and> map bias (linear_layers m') = map bias (linear_layers m)
     \<and> map in_features (linear_layers m') = map in_features (linear_layers m)
     \<and> map out_features (linear_layers m') = map out_features (linear_layers m)
     \<and> uniform_draw g' = uniform_draw g \<and> used_uniform g' = used_uniform g
     \<and> normal_draw g' = normal_draw g"
  using apply_init_normal_frame_aux(1)[OF refl assms[unfolded init_params_def]] .

text \<open>
  Claim C4. For \<open>hidden_layers = [2, 10, 10, 10, 1]\<close> the constructor returns a network
  whose \<open>layers\<close> are exactly four \<open>Linear\<close> modules, of sizes 2 to 10, 10 to 10, 10 to 10 and
  10 to 1, with a \<open>Tanh\<close> after each but the last. Every weight matrix holds Xavier normal
  values, standard normal numbers of the generator scaled by \<open>sqrt(2 / (fan_in + fan_out))\<close>,
  drawn after all four modules were built. The forward pass maps \<open>n\<close> rows of two numbers
  to \<open>n\<close> rows of one number, and raises on rows of any other width.
\<close>

theorem NeuralNetwork_is_xavier_mlp:
  "\<exists>l1 l2 l3 l4 net g'.
     NeuralNetwork_init hidden_layers g = Inr (net, g') \<and>
     net = NeuralNetwork (Sequential [Linear l1, Tanh, Linear l2, Tanh, Linear l3, Tanh, Linear l4]) \<and>
     linear_layers net = [l1, l2, l3, l4] \<and>
     (in_features l1, out_features l1) = (2, 10) \<and>
     (in_features l2, out_features l2) = (10, 10) \<and>
     (in_features l3, out_features l3) = (10, 10) \<and>
     (in_features l4, out_features l4) = (10, 1) \<and>
     weight l1 = \<lparr>shape = [10, 2],
       data = glorot_normal 2 10 (draws (normal_draw g) (used_normal g) 20)\<rparr> \<and>
     weight l2 = \<lparr>shape = [10, 10],
       data = glorot_normal 10 10 (draws (normal_draw g) (used_normal g + 20) 100)\<rparr> \<and>
     weight l3 = \<lparr>shape = [10, 10],
       data = glorot_normal 10 10 (draws (normal_draw g) (used_normal g + 120) 100)\<rparr> \<and>
     weight l4 = \<lparr>shape = [1, 10],
       data = glorot_normal 10 1 (draws (normal_draw g) (used_normal g + 220) 10)\<rparr> \<and>
     used_normal g' = used_normal g + 230 \<and>
     (\<forall>x n. shape x = [n, 2] \<and> wf_tensor x \<longrightarrow>
        (\<exists>y. forward net x = Inr y \<and> shape y = [n, 1] \<and> wf_tensor y)) \<and>
     (\<forall>x n k. shape x = [n, k] \<and> k \<noteq> 2 \<longrightarrow> forward net x = Inl RuntimeError)"
proof -
  let ?l1 = "\<lparr>in_features = 2, out_features = 10,
                weight = \<lparr>shape = [10, 2],
                          data = glorot_normal 2 10 (draws (normal_draw g) (used_normal g) 20)\<rparr>,
                bias = \<lparr>shape = [10],
                        data = default_bias 2 (draws (uniform_draw g) (used_uniform g + 20) 10)\<rparr>\<rparr>"
  let ?l2 = "\<lparr>in_features = 10, out_features = 10,
                weight = \<lparr>shape = [10, 10],
                          data = glorot_normal 10 10 (draws (normal_draw g) (used_normal g + 20) 100)\<rparr>,
                bias = \<lparr>shape = [10],
                        data = default_bias 10 (draws (uniform_draw g) (used_uniform g + 130) 10)\<rparr>\<rparr>"
  let ?l3 = "\<lparr>in_features = 10, out_features = 10,
                weight = \<lparr>shape = [10, 10],
                          data = glorot_normal 10 10 (draws (normal_draw g) (used_normal g + 120) 100)\<rparr>,
                bias = \<lparr>shape = [10],
                        data = default_bias 10 (draws (uniform_draw g) (used_uniform g + 240) 10)\<rparr>\<rparr>"
  let ?l4 = "\<lparr>in_features = 10, out_features = 1,
                weight = \<lparr>shape = [1, 10],
                          data = glorot_normal 10 1 (draws (normal_draw g) (used_normal g + 220) 10)\<rparr>,
                bias = \<lparr>shape = [1],
                        data = default_bias 10 (draws (uniform_draw g) (used_uniform g + 260) 1)\<rparr>\<rparr>"
  let ?net = "NeuralNetwork (Sequential
      [Linear ?l1, Tanh, Linear ?l2, Tanh, Linear ?l3, Tanh, Linear ?l4])"
  let ?g' = "g\<lparr>used_uniform := used_uniform g + 261, used_normal := used_normal g + 230\<rparr>"
  have init: "NeuralNetwork_init hidden_layers g = Inr (?net, ?g')"
    by (rule NeuralNetwork_init_hidden_layers)
  have fwd: "\<exists>y. forward ?net x = Inr y \<and> shape y = [n, 1] \<and> wf_tensor y"
    if "shape x = [n, 2]" for x n
    by (rule forward_four_layers[OF _ _ _ _ _ _ _ _ that]) simp_all
  have bad: "forward ?net x = Inl RuntimeError" if "shape x = [n, k]" "k \<noteq> 2" for x n k
    using that by (simp add: bind_def F_linear_def)
  have lin: "linear_layers ?net = [?l1, ?l2, ?l3, ?l4]" by simp
  show ?thesis
    apply (rule exI[of _ ?l1], rule exI[of _ ?l2], rule exI[of _ ?l3], rule exI[of _ ?l4])
    apply (rule exI[of _ ?net], rule exI[of _ ?g'])
    apply (intro conjI allI impI)
    using init lin fwd bad by simp_all
qed

theorem NeuralNetwork_is_xavier_mlp_witness:
  "\<exists>net g' y.
     NeuralNetwork_init hidden_layers
       \<lparr>uniform_draw = (\<lambda>k. 1 / 2), normal_draw = (\<lambda>k. 1), used_uniform = 0, used_normal = 0\<rparr>
       = Inr (net, g') \<and>
     length (linear_layers net) = 4 \<and>
     forward net \<lparr>shape = [1, 2], data = [1 / 2, 1]\<rparr> = Inr y \<and> shape y = [1, 1]"
proof -
  let ?g = "\<lparr>uniform_draw = (\<lambda>k. 1 / 2), normal_draw = (\<lambda>k. 1 :: real),
             used_uniform = 0, used_normal = 0\<rparr>"
  let ?x = "\<lparr>shape = [1, 2], data = [1 / 2, 1 :: real]\<rparr>"
  from NeuralNetwork_is_xavier_mlp[of ?g] obtain l1 l2 l3 l4 net g' where
    n: "NeuralNetwork_init hidden_layers ?g = Inr (net, g')"
      "linear_layers net = [l1, l2, l3, l4]"
    and f: "\<forall>x n. shape x = [n, 2] \<and> wf_tensor x \<longrightarrow>
        (\<exists>y. forward net x = Inr y \<and> shape y = [n, 1] \<and> wf_tensor y)"
    by blast
  have "shape ?x = [1, 2] \<and> wf_tensor ?x" by (simp add: wf_tensor_def)
  with f obtain y where "forward net ?x = Inr y" "shape y = [1, 1]" by blast
  with n show ?thesis by (intro exI[of _ net] exI[of _ g'] exI[of _ y]) simp
qed

text \<open>
  Claim C10. \<open>init_params\<close> changes nothing but the values of the weight matrices: the
  module it returns is the module it was given up to those values, so every bias is the
  one before the call and every module that is not a \<open>Linear\<close> is as before; the
  generator's uniform numbers are not touched. In the network the notebook builds,
  every bias holds the values \<open>nn.Linear\<close> drew for it by default.
\<close>

theorem init_params_changes_only_weights:
  "(\<forall>m' g'. init_params m g = Inr (m', g') \<longrightarrow>
      erase_weights m' = erase_weights m \<and>
      map bias (linear_layers m') = map bias (linear_layers m) \<and>
      map in_features (linear_layers m') = map in_features (linear_layers m) \<and>
      map out_features (linear_layers m') = map out_features (linear_layers m) \<and>
      used_uniform g' = used_uniform g) \<and>
   (\<exists>net g'. NeuralNetwork_init hidden_layers g = Inr (net, g') \<and>
      map bias (linear_layers net) =
        [\<lparr>shape = [10], data = default_bias 2 (draws (uniform_draw g) (used_uniform g + 20) 10)\<rparr>,
         \<lparr>shape = [10], data = default_bias 10 (draws (uniform_draw g) (used_uniform g + 130) 10)\<rparr>,
         \<lparr>shape = [10], data = default_bias 10 (draws (uniform_draw g) (used_uniform g + 240) 10)\<rparr>,
         \<lparr>shape = [1], data = default_bias 10 (draws (uniform_draw g) (used_uniform g + 260) 1)\<rparr>])"
proof (intro conjI allI impI)
  fix m' g' assume a: "init_params m g = Inr (m', g')"
  note f = init_params_frame_aux[OF a]
  show "erase_weights m' = erase_weights m" using f by blast
  show "map bias (linear_layers m') = map bias (linear_layers m)" using f by blast
  show "map in_features (linear_layers m') = map in_features (linear_layers m)" using f by blast
  show "map out_features (linear_layers m') = map out_features (linear_layers m)" using f by blast
  show "used_uniform g' = used_uniform g" using f by blast
next
  show "\<exists>net g'. NeuralNetwork_init hidden_layers g = Inr (net, g') \<and>
      map bias (linear_layers net) =
        [\<lparr>shape = [10], data = default_bias 2 (draws (uniform_draw g) (used_uniform g + 20) 10)\<rparr>,
         \<lparr>shape = [10], data = default_bias 10 (draws (uniform_draw g) (used_uniform g + 130) 10)\<rparr>,
         \<lparr>shape = [10], data = default_bias 10 (draws (uniform_draw g) (used_uniform g + 240) 10)\<rparr>,
         \<lparr>shape = [1], data = default_bias 10 (draws (uniform_draw g) (used_uniform g + 260) 1)\<rparr>]"
    unfolding NeuralNetwork_init_hidden_layers by simp
qed

theorem init_params_changes_only_weights_witness:
  "init_params
     (NeuralNetwork (Sequential
        [Linear \<lparr>in_features = 1, out_features = 1,
                 weight = \<lparr>shape = [1, 1], data = [3]\<rparr>, bias = \<lparr>shape = [1], data = [7]\<rparr>\<rparr>,
         Tanh]))
     \<lparr>uniform_draw = (\<lambda>k. 1 / 2), normal_draw = (\<lambda>k. 2), used_uniform = 0, used_normal = 0\<rparr>
   = Inr (NeuralNetwork (Sequential
        [Linear \<lparr>in_features = 1, out_features = 1,
                 weight = \<lparr>shape = [1, 1], data = [2]\<rparr>, bias = \<lparr>shape = [1], data = [7]\<rparr>\<rparr>,
         Tanh]),
      \<lparr>uniform_draw = (\<lambda>k. 1 / 2), normal_draw = (\<lambda>k. 2), used_uniform = 0, used_normal = 1\<rparr>) \<and>
   map bias (linear_layers (NeuralNetwork (Sequential
        [Linear \<lparr>in_features = 1, out_features = 1,
                 weight = \<lparr>shape = [1, 1], data = [2]\<rparr>, bias = \<lparr>shape = [1], data = [7]\<rparr>\<rparr>,
         Tanh])))
   = [\<lparr>shape = [1], data = [7]\<rparr>]"
proof -
  let ?m = "NeuralNetwork (Sequential
        [Linear \<lparr>in_features = 1, out_features = 1,
                 weight = \<lparr>shape = [1, 1], data = [3]\<rparr>, bias = \<lparr>shape = [1], data = [7]\<rparr>\<rparr>,
         Tanh])"
  let ?m' = "NeuralNetwork (Sequential
        [Linear \<lparr>in_features = 1, out_features = 1,
                 weight = \<lparr>shape = [1, 1], data = [2]\<rparr>, bias = \<lparr>shape = [1], data = [7]\<rparr>\<rparr>,
         Tanh])"
  let ?g = "\<lparr>uniform_draw = (\<lambda>k. 1 / 2), normal_draw = (\<lambda>k. 2 :: real),
             used_uniform = 0, used_normal = 0\<rparr>"
  let ?g' = "\<lparr>uniform_draw = (\<lambda>k. 1 / 2), normal_draw = (\<lambda>k. 2 :: real),
             used_uniform = 0, used_normal = 1\<rparr>"
  have r: "init_params ?m ?g = Inr (?m', ?g')"
    by (simp add: init_params_def init_normal_def xavier_normal_def bind_def
          calculate_fan_in_and_fan_out_def tensor_normal_def draws_def)
  from init_params_changes_only_weights[of ?m ?g] r
  have "map bias (linear_layers ?m') = map bias (linear_layers ?m)" by blast
  then have "map bias (linear_layers ?m') = [\<lparr>shape = [1], data = [7]\<rparr>]" by simp
  with r show ?thesis by blast
qed


subsection \<open>The loss function, the training loop and the run of the notebook\<close>

lemma notebook_globals_unbound:
  "notebook_globals obj ''PDE_loss'' = None"
  "notebook_globals obj ''IC_loss'' = None"
  "notebook_globals obj ''BC1_loss'' = None"
  "notebook_globals obj ''BC2_loss'' = None"
  by (simp_all add: notebook_globals_def notebook_names_def)

lemma notebook_globals_torch: "notebook_globals obj ''torch'' = Some (obj ''torch'')"
  by (simp add: notebook_globals_def notebook_names_def)

lemma PINN_diffusion_Loss_notebook:
  "PINN_diffusion_Loss (notebook_globals obj) add forward_pass x_ten t_ten lambda1 lambda2 lambda3 =
     (case torch_cat1 t_ten x_ten of
        Inl e \<Rightarrow> Inl e
      | Inr domain \<Rightarrow>
          (case forward_pass domain of
             Inl e \<Rightarrow> Inl e
           | Inr u \<Rightarrow> Inl (NameError ''PDE_loss'')))"
  by (simp add: PINN_diffusion_Loss_def bind_def load_global_def notebook_globals_unbound
        notebook_globals_torch split: sum.splits)

lemma PINN_diffusion_Loss_bound:
  assumes "ns ''torch'' = Some torch" "torch_cat1 t_ten x_ten = Inr domain"
    "forward_pass domain = Inr u"
    "ns ''PDE_loss'' = Some PDE_loss" "ns ''IC_loss'' = Some IC_loss"
    "ns ''BC1_loss'' = Some BC1_loss" "ns ''BC2_loss'' = Some BC2_loss"
  shows "PINN_diffusion_Loss ns add forward_pass x_ten t_ten lambda1 lambda2 lambda3 =
     bind (add PDE_loss IC_loss) (\<lambda>sum1. bind (add sum1 BC1_loss) (\<lambda>sum2. add sum2 BC2_loss))"
  using assms by (simp add: PINN_diffusion_Loss_def bind_def load_global_def)

text \<open>
  Claim C1. The function as the notebook gives it never returns: the four names of its
  \<open>return\<close> statement are bound nowhere, the derivatives and the four losses are left as
  comments. Whenever \<open>torch.cat\<close> and the forward pass succeed the call raises
  \<open>NameError: name 'PDE_loss' is not defined\<close>.
\<close>

theorem PINN_diffusion_Loss_raises_NameError:
  "(\<forall>v. PINN_diffusion_Loss (notebook_globals obj) add forward_pass x_ten t_ten
          lambda1 lambda2 lambda3 \<noteq> Inr v) \<and>
   (\<forall>domain u. torch_cat1 t_ten x_ten = Inr domain \<and> forward_pass domain = Inr u \<longrightarrow>
      PINN_diffusion_Loss (notebook_globals obj) add forward_pass x_ten t_ten
          lambda1 lambda2 lambda3 = Inl (NameError ''PDE_loss''))"
  by (auto simp: PINN_diffusion_Loss_notebook split: sum.splits)

theorem PINN_diffusion_Loss_raises_NameError_witness:
  "PINN_diffusion_Loss (notebook_globals (\<lambda>n. ())) (\<lambda>a b. Inr ())
     (\<lambda>d. Inr \<lparr>shape = [2, 1], data = [0, 0]\<rparr>)
     \<lparr>shape = [2, 1], data = [- 1 / 2, 1 / 2]\<rparr> \<lparr>shape = [2, 1], data = [0, 1]\<rparr> 1 1 1
   = Inl (NameError ''PDE_loss'')"
proof -
  have c: "torch_cat1 \<lparr>shape = [2, 1], data = [0, 1]\<rparr> \<lparr>shape = [2, 1], data = [- 1 / 2, 1 / 2]\<rparr>
      = Inr \<lparr>shape = [2, 2], data = [0, - 1 / 2, 1, 1 / 2]\<rparr>"
    by (simp add: torch_cat1_def upt_conv_Cons)
  show ?thesis
    using PINN_diffusion_Loss_raises_NameError
      [of "\<lambda>n. ()" "\<lambda>a b. Inr ()" "\<lambda>d. Inr \<lparr>shape = [2, 1], data = [0, 0]\<rparr>"
          "\<lparr>shape = [2, 1], data = [- 1 / 2, 1 / 2]\<rparr>" "\<lparr>shape = [2, 1], data = [0, 1]\<rparr>" 1 1 1]
      c
    by blast
qed



lemma for_loop_counts:
  assumes "\<And>i s. i \<in> set is \<Longrightarrow> \<exists>s'. body i s = (None, s') \<and> f s' = Suc (f s)"
  shows "\<exists>s'. for_loop body is s = (None, s') \<and> f s' = f s + length is"
  using assms
proof (induction "is" arbitrary: s)
  case Nil
  then show ?case by simp
next
  case (Cons i "is")
  from Cons.prems[of i s] obtain s1 where s1: "body i s = (None, s1)" "f s1 = Suc (f s)"
    by auto
  from Cons.IH[of s1] Cons.prems obtain s' where
    "for_loop body is s1 = (None, s')" "f s' = f s1 + length is"
    by (metis list.set_intros(2))
  then show ?case using s1 by simp
qed

lemma training_step_None:
  assumes "training_step ops ns x_ten t_ten i s = (None, s')"
  shows "\<exists>v. loss_values s' = loss_values s @ [v]"
  using assms
  by (auto simp: training_step_def Let_def split: sum.splits if_splits)

lemma training_loop_runs_training_iter_times:
  assumes "\<And>i s. i < training_iter \<Longrightarrow> fst (training_step ops ns x_ten t_ten i s) = None"
  shows "\<exists>s. training_loop ops ns x_ten t_ten m = (None, s)
    \<and> length (loss_values s) = training_iter"
proof -
  have "\<exists>s'. training_step ops ns x_ten t_ten i s = (None, s')
      \<and> (length \<circ> loss_values) s' = Suc ((length \<circ> loss_values) s)"
    if "i \<in> set [0..<training_iter]" for i s
  proof -
    have "i < training_iter" using that by simp
    from assms[OF this, of s]
    obtain s' where s': "training_step ops ns x_ten t_ten i s = (None, s')"
      by (cases "training_step ops ns x_ten t_ten i s") auto
    from training_step_None[OF s'] show ?thesis using s' by auto
  qed
  from for_loop_counts[of "[0..<training_iter]" "training_step ops ns x_ten t_ten"
      "length \<circ> loss_values" "\<lparr>model = m, loss_values = [], printed = []\<rparr>", OF this]
  show ?thesis by (simp add: training_loop_def)
qed

lemma training_step_notebook:
  "\<exists>e. training_step ops (notebook_globals obj) x_ten t_ten i s
     = (Some e, s\<lparr>model := zero_grad ops (model s)\<rparr>)"
proof -
  let ?loss = "PINN_diffusion_Loss (notebook_globals obj) (py_add ops)
       (forward (network ops (zero_grad ops (model s)))) x_ten t_ten 1 1 1"
  have "\<exists>e. ?loss = Inl e"
    unfolding PINN_diffusion_Loss_notebook by (simp split: sum.splits)
  then obtain e where "?loss = Inl e" by blast
  then show ?thesis by (simp add: training_step_def)
qed

text \<open>
  Claim C6. The loop of the notebook as given does not run 20000 times: whatever the
  network, the tensors and the optimizer, its first iteration raises inside
  \<open>PINN_diffusion_Loss\<close>, after \<open>optimizer.zero_grad()\<close> and before \<open>loss_values.append\<close>,
  so the loop ends with that exception, \<open>loss_values\<close> is still empty and nothing was
  printed. When \<open>torch.cat\<close> and the forward pass succeed, the exception is
  \<open>NameError: name 'PDE_loss' is not defined\<close>.
\<close>

theorem training_loop_raises_in_first_iteration:
  "(\<exists>e s. training_loop ops (notebook_globals obj) x_ten t_ten m = (Some e, s) \<and>
      loss_values s = [] \<and> printed s = [] \<and> model s = zero_grad ops m) \<and>
   (\<forall>d u. torch_cat1 t_ten x_ten = Inr d \<and> forward (network ops (zero_grad ops m)) d = Inr u \<longrightarrow>
      training_loop ops (notebook_globals obj) x_ten t_ten m
        = (Some (NameError ''PDE_loss''),
           \<lparr>model = zero_grad ops m, loss_values = [], printed = []\<rparr>))"
proof -
  have "0 < training_iter" by (simp add: training_iter_def)
  then have u: "[0..<training_iter] = 0 # [Suc 0..<training_iter]" by (rule upt_conv_Cons)
  let ?s0 = "\<lparr>model = m, loss_values = [], printed = []\<rparr>"
  obtain e where
    "training_step ops (notebook_globals obj) x_ten t_ten 0 ?s0
       = (Some e, ?s0\<lparr>model := zero_grad ops m\<rparr>)"
    using training_step_notebook[of ops obj x_ten t_ten 0 ?s0] by auto
  then have a: "\<exists>e s. training_loop ops (notebook_globals obj) x_ten t_ten m = (Some e, s) \<and>
      loss_values s = [] \<and> printed s = [] \<and> model s = zero_grad ops m"
    by (simp add: training_loop_def u)
  have b: "training_loop ops (notebook_globals obj) x_ten t_ten m
        = (Some (NameError ''PDE_loss''),
           \<lparr>model = zero_grad ops m, loss_values = [], printed = []\<rparr>)"
    if "torch_cat1 t_ten x_ten = Inr d \<and> forward (network ops (zero_grad ops m)) d = Inr u"
    for d u
  proof -
    have "training_step ops (notebook_globals obj) x_ten t_ten 0 ?s0
       = (Some (NameError ''PDE_loss''), \<lparr>model = zero_grad ops m, loss_values = [], printed = []\<rparr>)"
      using that by (simp add: training_step_def PINN_diffusion_Loss_notebook)
    then show ?thesis by (simp add: training_loop_def u)
  qed
  from a b show ?thesis by blast
qed

theorem training_loop_raises_in_first_iteration_witness:
  "training_loop
     \<lparr>optimizer_init = (\<lambda>net. net), network = (\<lambda>s. s), zero_grad = (\<lambda>s. s),
      item = (\<lambda>v. Inr 0), backward = (\<lambda>v s. Inr s), step = (\<lambda>s. Inr s),
      py_add = (\<lambda>a b. Inr ())\<rparr>
     (notebook_globals (\<lambda>n. ()))
     \<lparr>shape = [2, 1], data = [- 1 / 2, 1 / 2]\<rparr> \<lparr>shape = [2, 1], data = [0, 1]\<rparr> Tanh
   = (Some (NameError ''PDE_loss''), \<lparr>model = Tanh, loss_values = [], printed = []\<rparr>)"
proof -
  let ?ops = "\<lparr>optimizer_init = (\<lambda>net. net), network = (\<lambda>s. s), zero_grad = (\<lambda>s. s),
      item = (\<lambda>v. Inr 0), backward = (\<lambda>v s. Inr s), step = (\<lambda>s. Inr s),
      py_add = (\<lambda>a b. Inr ())\<rparr> :: (module, unit) torch_ops"
  let ?x = "\<lparr>shape = [2, 1], data = [- 1 / 2, 1 / 2 :: real]\<rparr>"
  let ?t = "\<lparr>shape = [2, 1], data = [0, 1 :: real]\<rparr>"
  let ?d = "\<lparr>shape = [2, 2], data = [0, - 1 / 2, 1, 1 / 2 :: real]\<rparr>"
  have c: "torch_cat1 ?t ?x = Inr ?d"
    by (simp add: torch_cat1_def upt_conv_Cons)
  have f: "forward (network ?ops (zero_grad ?ops Tanh)) ?d = Inr (?d\<lparr>data := map tanh (data ?d)\<rparr>)"
    by simp
  from training_loop_raises_in_first_iteration
    [where ops = ?ops and obj = "\<lambda>n. ()" and x_ten = ?x and t_ten = ?t and m = Tanh,
     THEN conjunct2, rule_format, OF conjI, OF c f]
  show ?thesis by simp
qed






























end
